theory Spec2Isabelle
  imports Complex_Main "HOL-Library.Monad_Syntax"
begin

section \<open>JavaScript values used by the event parser\<close>

text \<open>
  The sources are TypeScript. Three features of the running JavaScript decide what the
  parser does on malformed input and are therefore part of the model:
  \<^item> reading an array past its end gives \<open>undefined\<close>, and the non-null assertion
    \<open>x!\<close> lets it through: a string-typed field is a \<open>string option\<close> here, with
    \<open>None\<close> for \<open>undefined\<close>;
  \<^item> a \<open>number\<close> may be \<open>NaN\<close> or infinite, and every comparison with \<open>NaN\<close> is false;
  \<^item> a \<open>Date\<close> is an object: \<open>==\<close> between two of them compares the references,
    while \<open><\<close> and \<open>>=\<close> compare the time values (milliseconds since the epoch, or
    \<open>NaN\<close> for an invalid date).
\<close>

type_synonym jsstring = "string option"

datatype number = NaN | NegInf | Fin rat | PosInf

fun num_lt :: "number \<Rightarrow> number \<Rightarrow> bool" where
  "num_lt (Fin a) (Fin b) = (a < b)"
| "num_lt NegInf (Fin b) = True"
| "num_lt NegInf PosInf = True"
| "num_lt (Fin a) PosInf = True"
| "num_lt _ _ = False"

fun num_eq :: "number \<Rightarrow> number \<Rightarrow> bool" where
  "num_eq NaN _ = False"
| "num_eq _ NaN = False"
| "num_eq a b = (a = b)"

definition num_gt :: "number \<Rightarrow> number \<Rightarrow> bool" where
  "num_gt a b = num_lt b a"

text \<open>An exception that is thrown (inside an \<open>async\<close> function: a rejected promise):
  the \<open>TypeError\<close> of a method call on \<open>undefined\<close>, the \<open>Error\<close> that
  \<open>getWeekdayNameFromDate\<close> throws, with the index it reports (\<open>None\<close> for \<open>NaN\<close>), and
  the failure of \<open>client.guilds.fetch\<close>.\<close>

datatype exn = TypeError | InvalidWeekdayIndex "nat option" | FetchFailed

record Date =
  ident :: nat
  timeValue :: "int option"

text \<open>\<open>a == b\<close> on two \<open>Date\<close> objects: the same object.\<close>

definition date_looseEq :: "Date \<Rightarrow> Date \<Rightarrow> bool" where
  "date_looseEq a b = (ident a = ident b)"

text \<open>\<open>a < b\<close> and \<open>a >= b\<close> on two \<open>Date\<close> objects: both are converted to their time
  values; if either is \<open>NaN\<close> the comparison is false.\<close>

definition date_lt :: "Date \<Rightarrow> Date \<Rightarrow> bool" where
  "date_lt a b = (case (timeValue a, timeValue b) of (Some x, Some y) \<Rightarrow> x < y | _ \<Rightarrow> False)"

definition date_ge :: "Date \<Rightarrow> Date \<Rightarrow> bool" where
  "date_ge a b = (case (timeValue a, timeValue b) of (Some x, Some y) \<Rightarrow> x \<ge> y | _ \<Rightarrow> False)"

text \<open>\<open>s == ""\<close> for a value that is a string or \<open>undefined\<close>: \<open>undefined == ""\<close> is false.\<close>

definition str_isEmpty :: "jsstring \<Rightarrow> bool" where
  "str_isEmpty s = (s = Some [])"

text \<open>\<open>xs[i]\<close>: \<open>undefined\<close> past the end.\<close>

definition elemAt :: "string list \<Rightarrow> nat \<Rightarrow> jsstring" where
  "elemAt xs i = (if i < length xs then Some (xs ! i) else None)"

text \<open>\<open>s.split("; ")\<close>: cut at every occurrence of the two-character separator, scanning
  from the left; the result always has at least one element.\<close>

fun split_acc :: "string \<Rightarrow> string \<Rightarrow> string list" where
  "split_acc acc [] = [rev acc]"
| "split_acc acc [c] = [rev (c # acc)]"
| "split_acc acc (c # d # cs) =
     (if c = CHR '';'' \<and> d = CHR '' '' then rev acc # split_acc [] cs
      else split_acc (c # acc) (d # cs))"

definition js_split :: "string \<Rightarrow> string list" where
  "js_split s = split_acc [] s"

text \<open>\<open>s.trim()\<close>, on the ASCII white space.\<close>

definition isSpace :: "char \<Rightarrow> bool" where
  "isSpace c = (c \<in> set [CHR '' '', CHR 0x09, CHR 0x0A, CHR 0x0B, CHR 0x0C, CHR 0x0D])"

definition trim :: "string \<Rightarrow> string" where
  "trim s = rev (dropWhile isSpace (rev (dropWhile isSpace s)))"

section \<open>External collaborators\<close>

text \<open>
  The repository calls into libraries whose code is not part of it. What the parser needs
  from them is a parameter of the model:
  \<^item> \<open>isValidZone\<close>: the zone identifiers that Luxon recognises;
  \<^item> \<open>resolveLocal\<close>: Luxon's reading of a text in the format \<open>yyyy-MM-dd HH:mm\<close> as wall
    clock time in a recognised zone (\<open>None\<close> as zone: the default zone, which Luxon takes
    when the option is \<open>undefined\<close>), as milliseconds since the epoch, or \<open>None\<close> when the
    resulting \<open>DateTime\<close> is invalid;
  \<^item> \<open>stringToNumber\<close>: the conversion that unary \<open>+\<close> applies to a string;
  \<^item> \<open>localOffset\<close>: the offset in milliseconds of the process's own time zone at an
    instant, which \<open>Date.getDay\<close> uses;
  \<^item> \<open>enumValue\<close>: the numbers that discord.js gives the members of
    \<open>GuildScheduledEventRecurrenceRuleWeekday\<close>;
  \<^item> \<open>fetchGuild\<close>: whether \<open>client.guilds.fetch\<close> finds the server.
  The reply channel is taken to exist, and the system clock is a function \<open>clock\<close> from
  the place of a reading in the program to the value read there: 0 and 1 are the two
  \<open>new Date()\<close> of the fallback object in \<open>extractEventdetails\<close>, 2 and 3 those in
  \<open>eventHasEmptyValues\<close>, 4 and 5 the \<open>Date.now()\<close> of \<open>checkTimeInPast\<close> on the start
  and on the end time.
\<close>

datatype weekday = Sunday | Monday | Tuesday | Wednesday | Thursday | Friday | Saturday

record env =
  isValidZone :: "string \<Rightarrow> bool"
  resolveLocal :: "string \<Rightarrow> string option \<Rightarrow> int option"
  stringToNumber :: "string \<Rightarrow> number"
  localOffset :: "int \<Rightarrow> int"
  enumValue :: "weekday \<Rightarrow> nat"
  fetchGuild :: "string \<Rightarrow> bool"

text \<open>\<open>DateTime.fromFormat(text, 'yyyy-MM-dd HH:mm', {zone: tz})\<close> followed by
  \<open>isValid\<close> and \<open>toUTC\<close>: an unsupported zone gives an invalid \<open>DateTime\<close>. Luxon is
  in its default setting, in which invalid input gives an invalid \<open>DateTime\<close> and no
  exception.\<close>

definition fromFormat :: "env \<Rightarrow> string \<Rightarrow> jsstring \<Rightarrow> int option" where
  "fromFormat E text tz =
     (case tz of
        None \<Rightarrow> resolveLocal E text None
      | Some z \<Rightarrow> if isValidZone E z then resolveLocal E text (Some z) else None)"

text \<open>Unary \<open>+\<close> on a string or \<open>undefined\<close>: \<open>+undefined\<close> is \<open>NaN\<close>.\<close>

definition unaryPlus :: "env \<Rightarrow> jsstring \<Rightarrow> number" where
  "unaryPlus E v = (case v of None \<Rightarrow> NaN | Some s \<Rightarrow> stringToNumber E s)"

section \<open>additionalFunctions.ts\<close>

subsection \<open>parseCustomDate\<close>

text \<open>The regular expression \<open>/^(\d{4}-\d{2}-\d{2}) (\d{2}):(\d{2})$/\<close>: \<open>digits n\<close> and
  \<open>lit c\<close> consume a prefix and return the rest; the match succeeds when nothing is
  left. The three groups are the date, the hour and the minute.\<close>

definition isDigit :: "char \<Rightarrow> bool" where
  "isDigit c = (c \<in> set ''0123456789'')"

definition digits :: "nat \<Rightarrow> string \<Rightarrow> string option" where
  "digits n s = (if n \<le> length s \<and> list_all isDigit (take n s) then Some (drop n s) else None)"

definition lit :: "char \<Rightarrow> string \<Rightarrow> string option" where
  "lit c s = (case s of [] \<Rightarrow> None | d # ds \<Rightarrow> if d = c then Some ds else None)"

definition regex_match :: "string \<Rightarrow> (string \<times> string \<times> string) option" where
  "regex_match s =
     (case digits 4 s \<bind> lit CHR ''-'' \<bind> digits 2 \<bind> lit CHR ''-'' \<bind> digits 2
             \<bind> lit CHR '' '' \<bind> digits 2 \<bind> lit CHR '':'' \<bind> digits 2 of
        Some [] \<Rightarrow> Some (take 10 s, take 2 (drop 11 s), take 2 (drop 14 s))
      | _ \<Rightarrow> None)"

text \<open>
  The function returns a \<open>Date\<close> or \<open>null\<close> (\<open>None\<close>). Its argument is typed \<open>string\<close>,
  but \<open>extractEventdetails\<close> passes \<open>undefined\<close> for a missing field, and
  \<open>dateTime.match\<close> on \<open>undefined\<close> throws a \<open>TypeError\<close>. The \<open>Date\<close> that is returned is a
  new object; \<open>h\<close> counts the objects allocated so far and gives the next one its identity.
\<close>

definition parseCustomDate ::
  "env \<Rightarrow> nat \<Rightarrow> jsstring \<Rightarrow> jsstring \<Rightarrow> exn + (Date option \<times> nat)" where
  "parseCustomDate E h dateTime tz =
     (case dateTime of
        None \<Rightarrow> Inl TypeError
      | Some s \<Rightarrow>
          (case regex_match s of
             None \<Rightarrow> Inr (None, h)
           | Some (datePart, hourStr, minuteStr) \<Rightarrow>
               (case fromFormat E (datePart @ '' '' @ hourStr @ '':'' @ minuteStr) tz of
                  None \<Rightarrow> Inr (None, h)
                | Some ts \<Rightarrow> Inr (Some \<lparr>ident = h, timeValue = Some ts\<rparr>, Suc h))))"

subsection \<open>getWeekdayNameFromDate\<close>

text \<open>\<open>date.getDay()\<close>: the day of the week in the process's time zone, Sunday being 0;
  \<open>NaN\<close> for an invalid date. The first of January 1970 was a Thursday.\<close>

definition getDay :: "env \<Rightarrow> Date \<Rightarrow> nat option" where
  "getDay E date =
     (case timeValue date of
        None \<Rightarrow> None
      | Some t \<Rightarrow> Some (nat (((t + localOffset E t) div 86400000 + 4) mod 7)))"

definition days :: "weekday list" where
  "days = [Sunday, Monday, Tuesday, Wednesday, Thursday, Friday, Saturday]"

text \<open>\<open>days[NaN]\<close> is \<open>undefined\<close>, and \<open>!day\<close> holds for \<open>undefined\<close> and for a member of
  the enumeration whose number is 0.\<close>

definition getWeekdayNameFromDate :: "env \<Rightarrow> Date \<Rightarrow> exn + weekday" where
  "getWeekdayNameFromDate E date =
     (case getDay E date of
        None \<Rightarrow> Inl (InvalidWeekdayIndex None)
      | Some i \<Rightarrow>
          (let day = days ! i
           in if enumValue E day = 0 then Inl (InvalidWeekdayIndex (Some i)) else Inr day))"

subsection \<open>eventHasEmptyValues, checkTimeInPast, startTimebBeforeEndTime\<close>

record EventDetails =
  eventName :: jsstring
  startTime :: Date
  endTime :: Date
  timezone :: jsstring
  eventLocation :: jsstring
  description :: jsstring
  interval :: jsstring
  frequency :: number

text \<open>\<open>new Date()\<close> and \<open>new Date(Date.now())\<close>: a new object holding the clock's value.\<close>

definition newDate :: "nat \<Rightarrow> int \<Rightarrow> Date" where
  "newDate h now = \<lparr>ident = h, timeValue = Some now\<rparr>"

text \<open>The disjuncts are in the order of the source. The two \<open>new Date()\<close> are objects
  allocated during the call, so their identities are \<open>h\<close> and \<open>h + 1\<close>.\<close>

definition eventHasEmptyValues :: "nat \<Rightarrow> (nat \<Rightarrow> int) \<Rightarrow> EventDetails \<Rightarrow> bool" where
  "eventHasEmptyValues h clock eventObject =
     (if str_isEmpty (eventName eventObject) \<or> str_isEmpty (description eventObject)
         \<or> date_looseEq (endTime eventObject) (newDate h (clock 2))
         \<or> str_isEmpty (eventLocation eventObject)
         \<or> num_eq (frequency eventObject) (Fin 0) \<or> str_isEmpty (interval eventObject)
         \<or> date_looseEq (startTime eventObject) (newDate (Suc h) (clock 3))
         \<or> str_isEmpty (timezone eventObject)
      then True else False)"

text \<open>\<open>now\<close> is what \<open>Date.now()\<close> returns; the identity of \<open>currentDate\<close> plays no role in
  the comparison.\<close>

definition checkTimeInPast :: "int \<Rightarrow> Date \<Rightarrow> bool" where
  "checkTimeInPast now time =
     (let currentDate = newDate 0 now
      in if date_lt currentDate time then False else True)"

definition startTimebBeforeEndTime :: "Date \<Rightarrow> Date \<Rightarrow> bool" where
  "startTimebBeforeEndTime start_time end_time = date_ge start_time end_time"

section \<open>EventDetails.ts\<close>

text \<open>\<open>new Date(x)\<close> for \<open>x\<close> a \<open>Date\<close> or \<open>null\<close>: a new object with the time value of
  \<open>x\<close>; \<open>null\<close> is converted to the number 0, the epoch.\<close>

definition newDateFrom :: "nat \<Rightarrow> Date option \<Rightarrow> Date" where
  "newDateFrom h x =
     \<lparr>ident = h, timeValue = (case x of None \<Rightarrow> Some 0 | Some d \<Rightarrow> timeValue d)\<rparr>"

text \<open>The function is \<open>async\<close>: an exception inside it rejects the promise it returns
  (\<open>Inl\<close>). Both dates are parsed before the event type is looked at.\<close>

definition extractEventdetails ::
  "env \<Rightarrow> nat \<Rightarrow> (nat \<Rightarrow> int) \<Rightarrow> string \<Rightarrow> string \<Rightarrow> exn + (EventDetails \<times> nat)" where
  "extractEventdetails E h clock baseString eventType =
     (let eventInfoParts = js_split baseString;
          eventTimezone = (if str_isEmpty (elemAt eventInfoParts 3) then Some ''Europe/Amsterdam''
                           else elemAt eventInfoParts 3);
          name = elemAt eventInfoParts 0
      in case parseCustomDate E h (elemAt eventInfoParts 1) eventTimezone of
           Inl x \<Rightarrow> Inl x
         | Inr (d1, h1) \<Rightarrow>
             (let start_time = newDateFrom h1 d1
              in case parseCustomDate E (Suc h1) (elemAt eventInfoParts 2) eventTimezone of
                   Inl x \<Rightarrow> Inl x
                 | Inr (d2, h2) \<Rightarrow>
                     (let end_time = newDateFrom h2 d2;
                          location = elemAt eventInfoParts 4;
                          eventDescription = elemAt eventInfoParts 5
                      in if eventType = ''New Event'' then
                           Inr (\<lparr>eventName = name, startTime = start_time, endTime = end_time,
                                 timezone = eventTimezone, eventLocation = location,
                                 description = eventDescription, interval = Some [],
                                 frequency = Fin 0\<rparr>, Suc h2)
                         else if eventType = ''New Schedule'' then
                           (let eventInterval = elemAt eventInfoParts 6;
                                eventIntervalFrequency =
                                  unaryPlus E (map_option trim (elemAt eventInfoParts 7))
                            in Inr (\<lparr>eventName = name, startTime = start_time,
                                      endTime = end_time, timezone = eventTimezone,
                                      eventLocation = location, description = eventDescription,
                                      interval = eventInterval,
                                      frequency = eventIntervalFrequency\<rparr>, Suc h2))
                         else
                           Inr (\<lparr>eventName = Some [], startTime = newDate (Suc h2) (clock 0),
                                 endTime = newDate (Suc (Suc h2)) (clock 1), timezone = Some [],
                                 eventLocation = Some [], description = Some [],
                                 interval = Some [], frequency = Fin 0\<rparr>,
                                Suc (Suc (Suc h2))))))"

section \<open>eventFunctions.ts\<close>

text \<open>
  What \<open>guild.scheduledEvents.create\<close> is called with. The privacy level and the entity
  type are constants and left out; \<open>startAt\<close> of the rule is the start time.
\<close>

datatype recurrenceFrequency = Daily | Weekly

datatype recurrenceRule =
  RecurrenceRule (rule_frequency: recurrenceFrequency) (rule_interval: number)
    (rule_byWeekday: "weekday list")

datatype createOptions =
  CreateOptions (opt_name: jsstring) (opt_scheduledStartTime: Date)
    (opt_scheduledEndTime: Date) (opt_location: jsstring) (opt_description: jsstring)
    (opt_image: string) (opt_recurrenceRule: "recurrenceRule option")

text \<open>
  Each way out of \<open>createNewDiscordEvent\<close> and \<open>createNewDiscordSchedule\<close> is one value.
  A rejection is a \<open>return\<close> (or, for the monthly and yearly case, a \<open>break\<close>) after an
  error message was sent to the channel and nothing was created; the reasons are named as
  in the specification, after the message:
  \<^item> \<open>IncompleteSpecification\<close>: "Something went wrong. Please check your Event Details";
  \<^item> \<open>TimeInPast\<close>: "Start or End Time is in the past. Please retry.";
  \<^item> \<open>EndBeforeStart\<close>: "Event cannot end before the start time. Please retry.";
  \<^item> \<open>InvalidWeeklyInterval\<close>: "Error creating weekly schedule. Interval can only be 1 or 2.";
  \<^item> \<open>UnsupportedRecurrence\<close>: "Monthly schedule currently not working due to Discord API."
    (after the \<open>break\<close> the function goes on to the message that reports a created event);
  \<^item> \<open>UnknownRecurrenceKind\<close>: "Failed: Schedule not valid. Input: " and the token.
  \<open>NoServerID\<close> is the \<open>return\<close> after "Could not fetch Server-ID.", \<open>CreateCalled\<close> the call
  of \<open>guild.scheduledEvents.create\<close> with its argument, \<open>Failed\<close> an exception caught by the
  \<open>catch\<close> block ("Failed to create event: "), and \<open>Uncaught\<close> an exception outside the
  \<open>try\<close> block.
\<close>

datatype reason =
  IncompleteSpecification | TimeInPast | EndBeforeStart | InvalidWeeklyInterval
  | UnsupportedRecurrence | UnknownRecurrenceKind jsstring

datatype outcome =
  Rejected reason | NoServerID | CreateCalled createOptions | Failed exn | Uncaught exn

text \<open>
  The sources hold several revisions of the file. The model follows the latest, the one
  that checks the start against the end and has the monthly and the yearly case reduced to
  an error message; the revisions before it lack that check and call the API in these two
  cases as well.

  The first check of \<open>createNewDiscordSchedule\<close> is \<open>scheduleHasEmptyValues\<close> in the latest
  revision, whose definition is not among the sources, and \<open>eventHasEmptyValues\<close> in the
  revision before. It is the parameter \<open>hasEmptyValues\<close> of the model, which takes what
  \<open>eventHasEmptyValues\<close> takes. The latest revision imports the comparison of start and end
  as \<open>startTimeBeforeEndTime\<close>; \<open>additionalFunctions.ts\<close> defines it as
  \<open>startTimebBeforeEndTime\<close>.

  \<open>scheduleChecks\<close> is the body of the function from the first check on, for the
  \<open>EventDetails\<close> that \<open>extractEventdetails\<close> returned.
\<close>

definition scheduleChecks ::
  "env \<Rightarrow> (EventDetails \<Rightarrow> bool) \<Rightarrow> (nat \<Rightarrow> int) \<Rightarrow> string \<Rightarrow> jsstring \<Rightarrow> EventDetails \<Rightarrow> outcome"
  where
  "scheduleChecks E hasEmptyValues clock discordMessageAttachment guildID eventDetails =
     (if hasEmptyValues eventDetails then Rejected IncompleteSpecification
      else if checkTimeInPast (clock 4) (startTime eventDetails)
              \<or> checkTimeInPast (clock 5) (endTime eventDetails)
      then Rejected TimeInPast
      else if startTimebBeforeEndTime (startTime eventDetails) (endTime eventDetails)
      then Rejected EndBeforeStart
      else
        (case guildID of
           None \<Rightarrow> NoServerID
         | Some g \<Rightarrow>
             if \<not> fetchGuild E g then Failed FetchFailed
             else if interval eventDetails = Some ''daily'' then
               CreateCalled (CreateOptions (eventName eventDetails) (startTime eventDetails)
                 (endTime eventDetails) (eventLocation eventDetails)
                 (description eventDetails) discordMessageAttachment
                 (Some (RecurrenceRule Daily (frequency eventDetails) [])))
             else if interval eventDetails = Some ''weekly'' then
               (if num_gt (frequency eventDetails) (Fin 2)
                   \<or> num_lt (frequency eventDetails) (Fin 0)
                then Rejected InvalidWeeklyInterval
                else
                  (case getWeekdayNameFromDate E (startTime eventDetails) of
                     Inl x \<Rightarrow> Failed x
                   | Inr weekday \<Rightarrow>
                       CreateCalled (CreateOptions (eventName eventDetails)
                         (startTime eventDetails) (endTime eventDetails)
                         (eventLocation eventDetails) (description eventDetails)
                         discordMessageAttachment
                         (Some (RecurrenceRule Weekly (frequency eventDetails) [weekday])))))
             else if interval eventDetails = Some ''monthly'' then Rejected UnsupportedRecurrence
             else if interval eventDetails = Some ''yearly'' then Rejected UnsupportedRecurrence
             else Rejected (UnknownRecurrenceKind (interval eventDetails))))"

definition createNewDiscordSchedule ::
  "env \<Rightarrow> (nat \<Rightarrow> (nat \<Rightarrow> int) \<Rightarrow> EventDetails \<Rightarrow> bool) \<Rightarrow> nat \<Rightarrow> (nat \<Rightarrow> int) \<Rightarrow> string
     \<Rightarrow> string \<Rightarrow> jsstring \<Rightarrow> outcome" where
  "createNewDiscordSchedule E hasEmptyValues h clock eventInfo discordMessageAttachment guildID =
     (case extractEventdetails E h clock eventInfo ''New Schedule'' of
        Inl x \<Rightarrow> Uncaught x
      | Inr (eventDetails, h') \<Rightarrow>
          scheduleChecks E (hasEmptyValues h' clock) clock discordMessageAttachment guildID
            eventDetails)"

text \<open>\<open>createNewDiscordEvent\<close> makes the same three checks and then creates a single event.\<close>

definition eventChecks ::
  "env \<Rightarrow> (EventDetails \<Rightarrow> bool) \<Rightarrow> (nat \<Rightarrow> int) \<Rightarrow> string \<Rightarrow> jsstring \<Rightarrow> EventDetails \<Rightarrow> outcome"
  where
  "eventChecks E hasEmptyValues clock discordMessageAttachment guildID eventDetails =
     (if hasEmptyValues eventDetails then Rejected IncompleteSpecification
      else if checkTimeInPast (clock 4) (startTime eventDetails)
              \<or> checkTimeInPast (clock 5) (endTime eventDetails)
      then Rejected TimeInPast
      else if startTimebBeforeEndTime (startTime eventDetails) (endTime eventDetails)
      then Rejected EndBeforeStart
      else
        (case guildID of
           None \<Rightarrow> NoServerID
         | Some g \<Rightarrow>
             if \<not> fetchGuild E g then Failed FetchFailed
             else
               CreateCalled (CreateOptions (eventName eventDetails) (startTime eventDetails)
                 (endTime eventDetails) (eventLocation eventDetails)
                 (description eventDetails) discordMessageAttachment None)))"

definition createNewDiscordEvent ::
  "env \<Rightarrow> (nat \<Rightarrow> (nat \<Rightarrow> int) \<Rightarrow> EventDetails \<Rightarrow> bool) \<Rightarrow> nat \<Rightarrow> (nat \<Rightarrow> int) \<Rightarrow> string
     \<Rightarrow> string \<Rightarrow> jsstring \<Rightarrow> outcome" where
  "createNewDiscordEvent E hasEmptyValues h clock eventInfo discordMessageAttachment guildID =
     (case extractEventdetails E h clock eventInfo ''New Event'' of
        Inl x \<Rightarrow> Uncaught x
      | Inr (eventDetails, h') \<Rightarrow>
          eventChecks E (hasEmptyValues h' clock) clock discordMessageAttachment guildID
            eventDetails)"

section \<open>A sample environment\<close>

text \<open>
  For evaluating the functions on concrete input: a Luxon that knows the zone \<open>UTC\<close> only
  (which is also the default zone), a conversion of decimal digits to a number, a process
  running in UTC, the numbering of the weekdays in Discord's documentation (Monday is 0,
  Sunday is 6) and a server that is always found.
\<close>

definition digitValue :: "char \<Rightarrow> int" where
  "digitValue c = of_char c - 48"

definition decimal :: "string \<Rightarrow> int" where
  "decimal s = foldl (\<lambda>a c. 10 * a + digitValue c) 0 s"

definition isLeapYear :: "int \<Rightarrow> bool" where
  "isLeapYear y = (y mod 4 = 0 \<and> (y mod 100 \<noteq> 0 \<or> y mod 400 = 0))"

definition daysInMonth :: "int \<Rightarrow> int \<Rightarrow> int" where
  "daysInMonth y m =
     (if m = 2 then (if isLeapYear y then 29 else 28)
      else if m \<in> {4, 6, 9, 11} then 30 else 31)"

text \<open>Days from the first of January 1970 to a date of the Gregorian calendar.\<close>

definition daysFromCivil :: "int \<Rightarrow> int \<Rightarrow> int \<Rightarrow> int" where
  "daysFromCivil y m d =
     (let y' = (if m \<le> 2 then y - 1 else y);
          era = y' div 400;
          yoe = y' - era * 400;
          doy = (153 * (if m > 2 then m - 3 else m + 9) + 2) div 5 + d - 1;
          doe = yoe * 365 + yoe div 4 - yoe div 100 + doy
      in era * 146097 + doe - 719468)"

definition utcResolve :: "string \<Rightarrow> string option \<Rightarrow> int option" where
  "utcResolve text zone =
     (let y = decimal (take 4 text); m = decimal (take 2 (drop 5 text));
          d = decimal (take 2 (drop 8 text)); hour = decimal (take 2 (drop 11 text));
          minute = decimal (take 2 (drop 14 text))
      in if 1 \<le> m \<and> m \<le> 12 \<and> 1 \<le> d \<and> d \<le> daysInMonth y m \<and> hour \<le> 23 \<and> minute \<le> 59
         then Some (((daysFromCivil y m d * 24 + hour) * 60 + minute) * 60000)
         else None)"

definition decimalNumber :: "string \<Rightarrow> number" where
  "decimalNumber s = (if list_all isDigit s then Fin (of_int (decimal s)) else NaN)"

fun discordWeekday :: "weekday \<Rightarrow> nat" where
  "discordWeekday Monday = 0"
| "discordWeekday Tuesday = 1"
| "discordWeekday Wednesday = 2"
| "discordWeekday Thursday = 3"
| "discordWeekday Friday = 4"
| "discordWeekday Saturday = 5"
| "discordWeekday Sunday = 6"

definition sampleEnv :: env where
  "sampleEnv =
     \<lparr>isValidZone = (\<lambda>z. z = ''UTC''), resolveLocal = utcResolve,
      stringToNumber = decimalNumber, localOffset = (\<lambda>t. 0), enumValue = discordWeekday,
      fetchGuild = (\<lambda>g. True)\<rparr>"

section \<open>The checks, one by one\<close>

text \<open>
  For the claims about the order of the checks: the reasons of the checks that a given
  \<open>EventDetails\<close> fails, each check taken by itself, in the order completeness, position
  in time, order of start and end, recurrence. The first three are shared by
  \<open>createNewDiscordEvent\<close> and \<open>createNewDiscordSchedule\<close>.
\<close>

definition earlyFailures ::
  "(EventDetails \<Rightarrow> bool) \<Rightarrow> (nat \<Rightarrow> int) \<Rightarrow> EventDetails \<Rightarrow> reason list" where
  "earlyFailures hasEmptyValues clock e =
     (if hasEmptyValues e then [IncompleteSpecification] else [])
     @ (if checkTimeInPast (clock 4) (startTime e) \<or> checkTimeInPast (clock 5) (endTime e)
        then [TimeInPast] else [])
     @ (if startTimebBeforeEndTime (startTime e) (endTime e) then [EndBeforeStart] else [])"

definition recurrenceFailure :: "EventDetails \<Rightarrow> reason option" where
  "recurrenceFailure e =
     (if interval e = Some ''daily'' then None
      else if interval e = Some ''weekly'' then
        (if num_gt (frequency e) (Fin 2) \<or> num_lt (frequency e) (Fin 0)
         then Some InvalidWeeklyInterval else None)
      else if interval e = Some ''monthly'' \<or> interval e = Some ''yearly''
      then Some UnsupportedRecurrence
      else Some (UnknownRecurrenceKind (interval e)))"

definition failedChecks ::
  "(EventDetails \<Rightarrow> bool) \<Rightarrow> (nat \<Rightarrow> int) \<Rightarrow> EventDetails \<Rightarrow> reason list" where
  "failedChecks hasEmptyValues clock e =
     earlyFailures hasEmptyValues clock e
     @ (case recurrenceFailure e of None \<Rightarrow> [] | Some r \<Rightarrow> [r])"

section \<open>Notions of the specification\<close>

text \<open>
  The classification that the specification gives for the completeness check, in its
  words: incomplete when the name, the description, the time zone or the location is the
  empty string, when the recurrence interval is 0, or when the start or the end instant
  equals the sentinel \<open>now\<close>.
\<close>

definition incompleteAsSpecified :: "int \<Rightarrow> EventDetails \<Rightarrow> bool" where
  "incompleteAsSpecified now e =
     (eventName e = Some [] \<or> description e = Some [] \<or> timezone e = Some []
      \<or> eventLocation e = Some [] \<or> frequency e = Fin 0
      \<or> timeValue (startTime e) = Some now \<or> timeValue (endTime e) = Some now)"

text \<open>The empty specification: every field at its default, the instants being the clock
  when the object is made.\<close>

definition isEmptySpecification :: "(nat \<Rightarrow> int) \<Rightarrow> EventDetails \<Rightarrow> bool" where
  "isEmptySpecification clock e =
     (eventName e = Some [] \<and> timeValue (startTime e) = Some (clock 0)
      \<and> timeValue (endTime e) = Some (clock 1) \<and> timezone e = Some []
      \<and> eventLocation e = Some [] \<and> description e = Some [] \<and> interval e = Some []
      \<and> frequency e = Fin 0)"

text \<open>The time zone that \<open>extractEventdetails\<close> resolves the dates in: the fourth field, or
  the default when that field is empty.\<close>

definition zoneOf :: "string \<Rightarrow> jsstring" where
  "zoneOf line =
     (if str_isEmpty (elemAt (js_split line) 3) then Some ''Europe/Amsterdam''
      else elemAt (js_split line) 3)"

text \<open>A date text fails to resolve: \<open>parseCustomDate\<close> returns \<open>null\<close> for it (the count of
  objects plays no role in that).\<close>

definition failsToResolve :: "env \<Rightarrow> string \<Rightarrow> jsstring \<Rightarrow> bool" where
  "failsToResolve E text tz = (parseCustomDate E 0 (Some text) tz = Inr (None, 0))"

section \<open>Sample input\<close>

text \<open>
  A weekly event on Thursday, 10 January 2999, from 09:00 to 09:30 UTC, and a clock that
  stands at 14 November 2023, 22:13:20 UTC.
\<close>

definition sampleSpec :: EventDetails where
  "sampleSpec =
     \<lparr>eventName = Some ''Standup'',
      startTime = \<lparr>ident = 0, timeValue = Some 32472954000000\<rparr>,
      endTime = \<lparr>ident = 1, timeValue = Some 32472955800000\<rparr>,
      timezone = Some ''UTC'', eventLocation = Some ''Office'',
      description = Some ''Daily check-in'', interval = Some ''weekly'', frequency = Fin 1\<rparr>"

text \<open>The first of January 2000, 00:00 UTC, which the sample clock has passed.\<close>

definition pastDate :: Date where
  "pastDate = \<lparr>ident = 0, timeValue = Some 946684800000\<rparr>"

definition sampleClock :: "nat \<Rightarrow> int" where
  "sampleClock i = 1700000000000"

section \<open>The regular expression\<close>

lemma digits_Some:
  "digits n s = Some r \<longleftrightarrow> (\<exists>p. s = p @ r \<and> length p = n \<and> list_all isDigit p)"
  unfolding digits_def
  by (auto simp: list_all_iff min_def intro!: exI[of _ "take n s"] dest: in_set_takeD)

lemma digits_append: "length p = n \<Longrightarrow> list_all isDigit p \<Longrightarrow> digits n (p @ r) = Some r"
  by (simp add: digits_def)

lemma digits_exact: "length p = n \<Longrightarrow> list_all isDigit p \<Longrightarrow> digits n p = Some []"
  by (simp add: digits_def)

lemma lit_Some: "lit c s = Some r \<longleftrightarrow> s = c # r"
  unfolding lit_def by (auto split: list.splits)

lemma lit_Cons: "lit c (c # r) = Some r"
  by (simp add: lit_def)

text \<open>A text of the shape \<open>YYYY-MM-DD HH:MM\<close> matches, with the expected groups.\<close>

lemma regex_match_intro:
  assumes "length y = 4" "length m = 2" "length d = 2" "length b = 2" "length c = 2"
    and "list_all isDigit (y @ m @ d @ b @ c)"
  shows "regex_match (y @ ''-'' @ m @ ''-'' @ d @ '' '' @ b @ '':'' @ c)
           = Some (y @ ''-'' @ m @ ''-'' @ d, b, c)"
  using assms by (simp add: regex_match_def digits_append digits_exact lit_Cons)

text \<open>Only a text of that shape matches.\<close>

lemma regex_match_elim:
  assumes "regex_match s = Some (a, b, c)"
  shows "\<exists>y m d. a = y @ ''-'' @ m @ ''-'' @ d \<and> s = a @ '' '' @ b @ '':'' @ c
        \<and> length y = 4 \<and> length m = 2 \<and> length d = 2 \<and> length b = 2 \<and> length c = 2
        \<and> list_all isDigit (y @ m @ d @ b @ c)"
proof -
  from assms obtain y m d b' c'
    where s: "s = y @ ''-'' @ m @ ''-'' @ d @ '' '' @ b' @ '':'' @ c'"
      and len: "length y = 4" "length m = 2" "length d = 2" "length b' = 2" "length c' = 2"
      and dig: "list_all isDigit y" "list_all isDigit m" "list_all isDigit d"
        "list_all isDigit b'" "list_all isDigit c'"
    unfolding regex_match_def
    by (auto simp: bind_eq_Some_conv digits_Some lit_Some split: option.splits list.splits)
  have "regex_match s = Some (y @ ''-'' @ m @ ''-'' @ d, b', c')"
    unfolding s using len dig by (intro regex_match_intro) auto
  with assms have "a = y @ ''-'' @ m @ ''-'' @ d" "b = b'" "c = c'" by auto
  with s len dig show ?thesis by auto
qed

text \<open>The text that \<open>parseCustomDate\<close> puts together from the groups and hands to Luxon is
  the text it was given.\<close>

lemma regex_match_reassemble:
  "regex_match s = Some (a, b, c) \<Longrightarrow> a @ '' '' @ b @ '':'' @ c = s"
  using regex_match_elim by blast

section \<open>parseCustomDate returns null and does not throw\<close>

lemma parseCustomDate_text_cases:
  "parseCustomDate E h (Some text) tz = Inr (None, h)
   \<or> (\<exists>ts. parseCustomDate E h (Some text) tz = Inr (Some \<lparr>ident = h, timeValue = Some ts\<rparr>, Suc h))"
  by (auto simp: parseCustomDate_def split: option.splits)

text \<open>
  C8. On every text \<open>parseCustomDate\<close> returns a value and throws nothing. A text that
  the regular expression for \<open>YYYY-MM-DD HH:MM\<close> does not match gives \<open>null\<close>, whatever
  the zone, and every text gives \<open>null\<close> together with a zone identifier that Luxon does
  not recognise.
\<close>

theorem parseCustomDate_total:
  "(\<exists>r. parseCustomDate E h (Some text) tz = Inr r)
   \<and> (regex_match text = None \<longrightarrow> parseCustomDate E h (Some text) tz = Inr (None, h))
   \<and> (\<not> isValidZone E z \<longrightarrow> parseCustomDate E h (Some text) (Some z) = Inr (None, h))"
  by (auto simp: parseCustomDate_def fromFormat_def split: option.splits)

theorem parseCustomDate_total_witness:
  "regex_match ''10.01.2999 09:00'' = None
   \<and> parseCustomDate sampleEnv 0 (Some ''10.01.2999 09:00'') (Some ''UTC'') = Inr (None, 0)
   \<and> \<not> isValidZone sampleEnv ''Mars/Phobos''
   \<and> parseCustomDate sampleEnv 0 (Some ''2999-01-10 09:00'') (Some ''Mars/Phobos'')
       = Inr (None, 0)"
proof -
  have a: "regex_match ''10.01.2999 09:00'' = None" by code_simp
  have b: "\<not> isValidZone sampleEnv ''Mars/Phobos''" by (simp add: sampleEnv_def)
  from a b
    parseCustomDate_total [of sampleEnv 0 "''10.01.2999 09:00''" "Some ''UTC''" "''Mars/Phobos''"]
    parseCustomDate_total [of sampleEnv 0 "''2999-01-10 09:00''" "Some ''Mars/Phobos''"
      "''Mars/Phobos''"]
  show ?thesis by blast
qed

section \<open>The order of the checks\<close>

lemmas sample_defs = sampleSpec_def pastDate_def sampleClock_def sampleEnv_def

lemmas check_defs = eventHasEmptyValues_def checkTimeInPast_def startTimebBeforeEndTime_def
  date_lt_def date_ge_def date_looseEq_def newDate_def str_isEmpty_def num_gt_def

lemma earlyFailures_hd:
  "earlyFailures chk clock e \<noteq> [] \<Longrightarrow>
   scheduleChecks E chk clock a g e = Rejected (hd (earlyFailures chk clock e))
   \<and> eventChecks E chk clock a g e = Rejected (hd (earlyFailures chk clock e))"
  by (auto simp: earlyFailures_def scheduleChecks_def eventChecks_def split: if_splits)

lemma recurrence_last:
  "earlyFailures chk clock e = [] \<Longrightarrow> fetchGuild E s \<Longrightarrow> recurrenceFailure e = Some r \<Longrightarrow>
   scheduleChecks E chk clock a (Some s) e = Rejected r"
  by (auto simp: earlyFailures_def scheduleChecks_def recurrenceFailure_def split: if_splits)

text \<open>
  C7. Whatever the completeness check \<open>chk\<close> is: when one of the first three checks
  fails, both functions reject with the reason of the first of them that fails; when an
  input fails more than one of the four checks, \<open>createNewDiscordSchedule\<close> rejects it
  with the reason of the first failing check in the order completeness, position in time,
  order of start and end, recurrence; and the recurrence is looked at last, its reason
  being given when the three checks before it pass (and the server is found).
\<close>

theorem checks_in_fixed_order:
  "(earlyFailures chk clock e \<noteq> [] \<longrightarrow>
      scheduleChecks E chk clock a g e = Rejected (hd (earlyFailures chk clock e))
      \<and> eventChecks E chk clock a g e = Rejected (hd (earlyFailures chk clock e)))
   \<and> (2 \<le> length (failedChecks chk clock e) \<longrightarrow>
      scheduleChecks E chk clock a g e = Rejected (hd (failedChecks chk clock e)))
   \<and> (earlyFailures chk clock e = [] \<and> g = Some s \<and> fetchGuild E s
        \<and> recurrenceFailure e = Some r \<longrightarrow>
      scheduleChecks E chk clock a g e = Rejected r)"
proof (intro conjI impI)
  assume "2 \<le> length (failedChecks chk clock e)"
  then have ne: "earlyFailures chk clock e \<noteq> []"
    by (auto simp: failedChecks_def split: option.splits)
  then have "hd (failedChecks chk clock e) = hd (earlyFailures chk clock e)"
    by (simp add: failedChecks_def)
  with ne earlyFailures_hd [of chk clock e E a g]
  show "scheduleChecks E chk clock a g e = Rejected (hd (failedChecks chk clock e))" by simp
qed (use earlyFailures_hd [of chk clock e E a g] recurrence_last [of chk clock e E] in auto)

text \<open>An input that fails all four checks, one that fails the second and the third, and
  one that fails the last only.\<close>

theorem checks_in_fixed_order_witness:
  "failedChecks (eventHasEmptyValues 2 sampleClock) sampleClock
     (sampleSpec\<lparr>eventName := Some [], startTime := pastDate, endTime := pastDate,
        interval := Some ''monthly''\<rparr>)
     = [IncompleteSpecification, TimeInPast, EndBeforeStart, UnsupportedRecurrence]
   \<and> scheduleChecks sampleEnv (eventHasEmptyValues 2 sampleClock) sampleClock [] (Some ''g'')
       (sampleSpec\<lparr>eventName := Some [], startTime := pastDate, endTime := pastDate,
          interval := Some ''monthly''\<rparr>)
     = Rejected IncompleteSpecification
   \<and> earlyFailures (eventHasEmptyValues 2 sampleClock) sampleClock
       (sampleSpec\<lparr>startTime := pastDate, endTime := pastDate\<rparr>)
     = [TimeInPast, EndBeforeStart]
   \<and> eventChecks sampleEnv (eventHasEmptyValues 2 sampleClock) sampleClock [] (Some ''g'')
       (sampleSpec\<lparr>startTime := pastDate, endTime := pastDate\<rparr>)
     = Rejected TimeInPast
   \<and> earlyFailures (eventHasEmptyValues 2 sampleClock) sampleClock
       (sampleSpec\<lparr>interval := Some ''monthly''\<rparr>) = []
   \<and> recurrenceFailure (sampleSpec\<lparr>interval := Some ''monthly''\<rparr>) = Some UnsupportedRecurrence
   \<and> scheduleChecks sampleEnv (eventHasEmptyValues 2 sampleClock) sampleClock [] (Some ''g'')
       (sampleSpec\<lparr>interval := Some ''monthly''\<rparr>)
     = Rejected UnsupportedRecurrence"
proof -
  let ?chk = "eventHasEmptyValues 2 sampleClock"
  let ?all = "sampleSpec\<lparr>eventName := Some [], startTime := pastDate, endTime := pastDate,
        interval := Some ''monthly''\<rparr>"
  let ?two = "sampleSpec\<lparr>startTime := pastDate, endTime := pastDate\<rparr>"
  let ?last = "sampleSpec\<lparr>interval := Some ''monthly''\<rparr>"
  have f1: "failedChecks ?chk sampleClock ?all
      = [IncompleteSpecification, TimeInPast, EndBeforeStart, UnsupportedRecurrence]"
    by (simp add: failedChecks_def earlyFailures_def recurrenceFailure_def check_defs sample_defs)
  have f2: "earlyFailures ?chk sampleClock ?two = [TimeInPast, EndBeforeStart]"
    by (simp add: earlyFailures_def check_defs sample_defs)
  have f3: "earlyFailures ?chk sampleClock ?last = []"
    by (simp add: earlyFailures_def check_defs sample_defs)
  have f4: "recurrenceFailure ?last = Some UnsupportedRecurrence"
    by (simp add: recurrenceFailure_def sample_defs)
  have g: "fetchGuild sampleEnv ''g''" by (simp add: sampleEnv_def)
  from f1 checks_in_fixed_order [of ?chk sampleClock ?all sampleEnv "[]" "Some ''g''"]
  have r1: "scheduleChecks sampleEnv ?chk sampleClock [] (Some ''g'') ?all
      = Rejected IncompleteSpecification" by simp
  from f2 checks_in_fixed_order [of ?chk sampleClock ?two sampleEnv "[]" "Some ''g''"]
  have r2: "eventChecks sampleEnv ?chk sampleClock [] (Some ''g'') ?two = Rejected TimeInPast"
    by simp
  from f3 f4 g
    checks_in_fixed_order [of ?chk sampleClock ?last sampleEnv "[]" "Some ''g''" "''g''"
      UnsupportedRecurrence]
  have r3: "scheduleChecks sampleEnv ?chk sampleClock [] (Some ''g'') ?last
      = Rejected UnsupportedRecurrence" by simp
  from f1 f2 f3 f4 r1 r2 r3 show ?thesis by simp
qed

section \<open>Start before end\<close>

text \<open>
  C5 as stated fails: a start instant that is not before the end instant is not always
  reported as such. Here start and end are the same instant in the past, and the reason
  is the one of the earlier check.
\<close>

theorem end_before_start_counterexample:
  "date_ge (startTime (sampleSpec\<lparr>startTime := pastDate, endTime := pastDate\<rparr>))
     (endTime (sampleSpec\<lparr>startTime := pastDate, endTime := pastDate\<rparr>))
   \<and> scheduleChecks sampleEnv (eventHasEmptyValues 2 sampleClock) sampleClock [] (Some ''g'')
       (sampleSpec\<lparr>startTime := pastDate, endTime := pastDate\<rparr>)
     = Rejected TimeInPast"
  by (simp add: scheduleChecks_def check_defs sample_defs)

text \<open>
  C5, amended. For every accepted specification (one for which the event is created, by
  either function) the start instant is strictly before the end instant; a specification
  that passes the completeness check and the check of the position in time, and whose
  start instant is equal to or later than its end instant, is rejected with reason
  \<open>EndBeforeStart\<close>.
\<close>

theorem accepted_start_before_end:
  "(scheduleChecks E chk clock a g e = CreateCalled opts
      \<or> eventChecks E chk clock a g e = CreateCalled opts \<longrightarrow>
      (\<exists>s t. timeValue (startTime e) = Some s \<and> timeValue (endTime e) = Some t \<and> s < t))
   \<and> (\<not> chk e \<and> \<not> checkTimeInPast (clock 4) (startTime e)
        \<and> \<not> checkTimeInPast (clock 5) (endTime e)
        \<and> timeValue (startTime e) = Some s' \<and> timeValue (endTime e) = Some t' \<and> t' \<le> s' \<longrightarrow>
      scheduleChecks E chk clock a g e = Rejected EndBeforeStart
      \<and> eventChecks E chk clock a g e = Rejected EndBeforeStart)"
  by (auto simp: scheduleChecks_def eventChecks_def check_defs
      split: if_splits option.splits sum.splits)

text \<open>The sample event is accepted and starts before it ends; with the end moved to the
  start it is rejected.\<close>

theorem accepted_start_before_end_witness:
  "scheduleChecks sampleEnv (eventHasEmptyValues 2 sampleClock) sampleClock [] (Some ''g'')
      sampleSpec
     = CreateCalled (CreateOptions (Some ''Standup'') (startTime sampleSpec) (endTime sampleSpec)
         (Some ''Office'') (Some ''Daily check-in'') []
         (Some (RecurrenceRule Weekly (Fin 1) [Thursday])))
   \<and> (\<exists>s t. timeValue (startTime sampleSpec) = Some s \<and> timeValue (endTime sampleSpec) = Some t
         \<and> s < t)
   \<and> \<not> eventHasEmptyValues 2 sampleClock (sampleSpec\<lparr>endTime := startTime sampleSpec\<rparr>)
   \<and> \<not> checkTimeInPast (sampleClock 4) (startTime sampleSpec)
   \<and> scheduleChecks sampleEnv (eventHasEmptyValues 2 sampleClock) sampleClock [] (Some ''g'')
       (sampleSpec\<lparr>endTime := startTime sampleSpec\<rparr>)
     = Rejected EndBeforeStart"
proof -
  let ?chk = "eventHasEmptyValues 2 sampleClock"
  let ?opts = "CreateOptions (Some ''Standup'') (startTime sampleSpec) (endTime sampleSpec)
         (Some ''Office'') (Some ''Daily check-in'') []
         (Some (RecurrenceRule Weekly (Fin 1) [Thursday]))"
  let ?bad = "sampleSpec\<lparr>endTime := startTime sampleSpec\<rparr>"
  have acc: "scheduleChecks sampleEnv ?chk sampleClock [] (Some ''g'') sampleSpec
      = CreateCalled ?opts"
    by (simp add: scheduleChecks_def check_defs sample_defs getWeekdayNameFromDate_def
        getDay_def days_def)
  have h: "\<not> ?chk ?bad" "\<not> checkTimeInPast (sampleClock 4) (startTime ?bad)"
    "\<not> checkTimeInPast (sampleClock 5) (endTime ?bad)"
    "timeValue (startTime ?bad) = Some 32472954000000"
    "timeValue (endTime ?bad) = Some 32472954000000"
    by (simp_all add: check_defs sample_defs)
  from acc
    accepted_start_before_end [of sampleEnv ?chk sampleClock "[]" "Some ''g''" sampleSpec ?opts]
  have c1: "\<exists>s t. timeValue (startTime sampleSpec) = Some s
      \<and> timeValue (endTime sampleSpec) = Some t \<and> s < t" by blast
  from h
    accepted_start_before_end [of sampleEnv ?chk sampleClock "[]" "Some ''g''" ?bad _
      32472954000000 32472954000000]
  have c2: "scheduleChecks sampleEnv ?chk sampleClock [] (Some ''g'') ?bad
      = Rejected EndBeforeStart" by simp
  from acc c1 c2 h show ?thesis by simp
qed

section \<open>Not in the past\<close>

text \<open>
  C6 as stated fails: a start instant in the past is not always reported as such. Here the
  name is empty as well, and the reason is the one of the completeness check.
\<close>

theorem time_in_past_counterexample:
  "timeValue (startTime (sampleSpec\<lparr>eventName := Some [], startTime := pastDate\<rparr>))
     = Some 946684800000
   \<and> 946684800000 \<le> sampleClock 4
   \<and> scheduleChecks sampleEnv (eventHasEmptyValues 2 sampleClock) sampleClock [] (Some ''g'')
       (sampleSpec\<lparr>eventName := Some [], startTime := pastDate\<rparr>)
     = Rejected IncompleteSpecification"
  by (simp add: scheduleChecks_def check_defs sample_defs)

text \<open>
  C6, amended. For every accepted specification the start instant is strictly later than
  the clock when the start is checked, and the end instant strictly later than the clock
  when the end is checked; a specification that passes the completeness check and has one
  of the two instants equal to or earlier than that reading of the clock is rejected with
  reason \<open>TimeInPast\<close>.
\<close>

theorem accepted_in_future:
  "(scheduleChecks E chk clock a g e = CreateCalled opts
      \<or> eventChecks E chk clock a g e = CreateCalled opts \<longrightarrow>
      (\<exists>s t. timeValue (startTime e) = Some s \<and> timeValue (endTime e) = Some t
         \<and> clock 4 < s \<and> clock 5 < t))
   \<and> (\<not> chk e \<and> ((timeValue (startTime e) = Some s' \<and> s' \<le> clock 4)
                 \<or> (timeValue (endTime e) = Some t' \<and> t' \<le> clock 5)) \<longrightarrow>
      scheduleChecks E chk clock a g e = Rejected TimeInPast
      \<and> eventChecks E chk clock a g e = Rejected TimeInPast)"
  by (auto simp: scheduleChecks_def eventChecks_def check_defs
      split: if_splits option.splits sum.splits)

theorem accepted_in_future_witness:
  "scheduleChecks sampleEnv (eventHasEmptyValues 2 sampleClock) sampleClock [] (Some ''g'')
      sampleSpec
     = CreateCalled (CreateOptions (Some ''Standup'') (startTime sampleSpec) (endTime sampleSpec)
         (Some ''Office'') (Some ''Daily check-in'') []
         (Some (RecurrenceRule Weekly (Fin 1) [Thursday])))
   \<and> (\<exists>s t. timeValue (startTime sampleSpec) = Some s \<and> timeValue (endTime sampleSpec) = Some t
         \<and> sampleClock 4 < s \<and> sampleClock 5 < t)
   \<and> \<not> eventHasEmptyValues 2 sampleClock (sampleSpec\<lparr>startTime := pastDate\<rparr>)
   \<and> eventChecks sampleEnv (eventHasEmptyValues 2 sampleClock) sampleClock [] (Some ''g'')
       (sampleSpec\<lparr>startTime := pastDate\<rparr>)
     = Rejected TimeInPast"
proof -
  let ?chk = "eventHasEmptyValues 2 sampleClock"
  let ?opts = "CreateOptions (Some ''Standup'') (startTime sampleSpec) (endTime sampleSpec)
         (Some ''Office'') (Some ''Daily check-in'') []
         (Some (RecurrenceRule Weekly (Fin 1) [Thursday]))"
  let ?bad = "sampleSpec\<lparr>startTime := pastDate\<rparr>"
  have acc: "scheduleChecks sampleEnv ?chk sampleClock [] (Some ''g'') sampleSpec
      = CreateCalled ?opts"
    by (simp add: scheduleChecks_def check_defs sample_defs getWeekdayNameFromDate_def
        getDay_def days_def)
  have h: "\<not> ?chk ?bad" "timeValue (startTime ?bad) = Some 946684800000"
    "946684800000 \<le> sampleClock 4"
    by (simp_all add: check_defs sample_defs)
  from acc
    accepted_in_future [of sampleEnv ?chk sampleClock "[]" "Some ''g''" sampleSpec ?opts]
  have c1: "\<exists>s t. timeValue (startTime sampleSpec) = Some s
      \<and> timeValue (endTime sampleSpec) = Some t \<and> sampleClock 4 < s \<and> sampleClock 5 < t"
    by blast
  from h
    accepted_in_future [of sampleEnv ?chk sampleClock "[]" "Some ''g''" ?bad _ 946684800000]
  have c2: "eventChecks sampleEnv ?chk sampleClock [] (Some ''g'') ?bad = Rejected TimeInPast"
    by blast
  from acc c1 c2 h show ?thesis by simp
qed

section \<open>Monthly and yearly schedules\<close>




section \<open>The weekly interval\<close>

text \<open>Whatever the completeness check is, an interval of 0 is never rejected as an invalid
  weekly interval: the test in the \<open>weekly\<close> case is \<open>frequency > 2 || frequency < 0\<close>.\<close>

lemma weekly_zero_not_invalid_interval:
  "frequency e = Fin 0 \<Longrightarrow> scheduleChecks E chk clock a g e \<noteq> Rejected InvalidWeeklyInterval"
  by (auto simp: scheduleChecks_def num_gt_def split: option.splits sum.splits)

text \<open>The index that \<open>getDay\<close> gives is within the table of the days.\<close>

lemma getDay_range: "getDay E date = Some i \<Longrightarrow> i < length days"
  by (auto simp: getDay_def days_def split: option.splits)

text \<open>A weekly schedule that passes every check is not created when the weekday of its start
  has the number 0 in the enumeration: \<open>!day\<close> holds and \<open>getWeekdayNameFromDate\<close> throws. In
  the sample environment that is every schedule starting on a Monday, here Monday, 14
  January 2999, 09:00 UTC.\<close>

lemma weekly_weekday_zero_fails:
  "scheduleChecks sampleEnv (eventHasEmptyValues 2 sampleClock) sampleClock [] (Some ''g'')
     (sampleSpec\<lparr>startTime := \<lparr>ident = 0, timeValue = Some 32473299600000\<rparr>,
        endTime := \<lparr>ident = 1, timeValue = Some 32473301400000\<rparr>\<rparr>)
   = Failed (InvalidWeekdayIndex (Some 1))"
  by (simp add: scheduleChecks_def check_defs sample_defs getWeekdayNameFromDate_def
      getDay_def days_def)

text \<open>
  C1 as stated fails at the interval 0: the sample event, which is accepted with the
  interval 1, is rejected with the interval 0 by the completeness check, with reason
  \<open>IncompleteSpecification\<close> and not \<open>InvalidWeeklyInterval\<close>.
\<close>

theorem weekly_interval_counterexample:
  "interval (sampleSpec\<lparr>frequency := Fin 0\<rparr>) = Some ''weekly''
   \<and> scheduleChecks sampleEnv (eventHasEmptyValues 2 sampleClock) sampleClock [] (Some ''g'')
       (sampleSpec\<lparr>frequency := Fin 0\<rparr>)
     = Rejected IncompleteSpecification"
  by (simp add: scheduleChecks_def check_defs sample_defs)

text \<open>
  C1, amended. Take a weekly specification that is valid but for its interval: it is
  complete when given the interval 1, start and end are in the future and in order, the
  server is found and the weekday of the start is resolved. For every integer \<open>n\<close> as its
  interval: with 1 or 2 it is accepted, and the event is created with that interval and
  the weekday; with an interval greater than 2 or less than 0 it is rejected with reason
  \<open>InvalidWeeklyInterval\<close>; with 0 it is rejected with reason
  \<open>IncompleteSpecification\<close>, by the completeness check \<open>eventHasEmptyValues\<close>.
\<close>

theorem weekly_interval_bound:
  assumes "interval e = Some ''weekly''"
    and "\<not> eventHasEmptyValues h clock (e\<lparr>frequency := Fin 1\<rparr>)"
    and "\<not> checkTimeInPast (clock 4) (startTime e)"
    and "\<not> checkTimeInPast (clock 5) (endTime e)"
    and "\<not> startTimebBeforeEndTime (startTime e) (endTime e)"
    and "fetchGuild E s"
    and "getWeekdayNameFromDate E (startTime e) = Inr wd"
  shows "scheduleChecks E (eventHasEmptyValues h clock) clock a (Some s)
           (e\<lparr>frequency := Fin (of_int n)\<rparr>) =
         (if n = 0 then Rejected IncompleteSpecification
          else if n < 0 \<or> 2 < n then Rejected InvalidWeeklyInterval
          else CreateCalled (CreateOptions (eventName e) (startTime e) (endTime e)
                 (eventLocation e) (description e) a
                 (Some (RecurrenceRule Weekly (Fin (of_int n)) [wd]))))"
  using assms
  by (auto simp: scheduleChecks_def eventHasEmptyValues_def num_gt_def)

text \<open>The sample event with the intervals 2, 3 and -1.\<close>

theorem weekly_interval_bound_witness:
  "interval sampleSpec = Some ''weekly''
   \<and> \<not> eventHasEmptyValues 2 sampleClock (sampleSpec\<lparr>frequency := Fin 1\<rparr>)
   \<and> \<not> checkTimeInPast (sampleClock 4) (startTime sampleSpec)
   \<and> \<not> checkTimeInPast (sampleClock 5) (endTime sampleSpec)
   \<and> \<not> startTimebBeforeEndTime (startTime sampleSpec) (endTime sampleSpec)
   \<and> fetchGuild sampleEnv ''g''
   \<and> getWeekdayNameFromDate sampleEnv (startTime sampleSpec) = Inr Thursday
   \<and> scheduleChecks sampleEnv (eventHasEmptyValues 2 sampleClock) sampleClock [] (Some ''g'')
       (sampleSpec\<lparr>frequency := Fin 2\<rparr>)
     = CreateCalled (CreateOptions (Some ''Standup'') (startTime sampleSpec) (endTime sampleSpec)
         (Some ''Office'') (Some ''Daily check-in'') []
         (Some (RecurrenceRule Weekly (Fin 2) [Thursday])))
   \<and> scheduleChecks sampleEnv (eventHasEmptyValues 2 sampleClock) sampleClock [] (Some ''g'')
       (sampleSpec\<lparr>frequency := Fin 3\<rparr>)
     = Rejected InvalidWeeklyInterval
   \<and> scheduleChecks sampleEnv (eventHasEmptyValues 2 sampleClock) sampleClock [] (Some ''g'')
       (sampleSpec\<lparr>frequency := Fin (- 1)\<rparr>)
     = Rejected InvalidWeeklyInterval"
proof -
  have h: "interval sampleSpec = Some ''weekly''"
    "\<not> eventHasEmptyValues 2 sampleClock (sampleSpec\<lparr>frequency := Fin 1\<rparr>)"
    "\<not> checkTimeInPast (sampleClock 4) (startTime sampleSpec)"
    "\<not> checkTimeInPast (sampleClock 5) (endTime sampleSpec)"
    "\<not> startTimebBeforeEndTime (startTime sampleSpec) (endTime sampleSpec)"
    "fetchGuild sampleEnv ''g''"
    by (simp_all add: check_defs sample_defs)
  have wd: "getWeekdayNameFromDate sampleEnv (startTime sampleSpec) = Inr Thursday"
    by (simp add: getWeekdayNameFromDate_def getDay_def days_def sample_defs)
  note b = weekly_interval_bound [OF h wd, of "[]"]
  have v: "eventName sampleSpec = Some ''Standup''" "eventLocation sampleSpec = Some ''Office''"
    "description sampleSpec = Some ''Daily check-in''"
    by (simp_all add: sampleSpec_def)
  from b [of 2] b [of 3] b [of "- 1"] h wd v show ?thesis by simp
qed

section \<open>The completeness check\<close>

lemma num_eq_zero: "num_eq x (Fin 0) \<longleftrightarrow> x = Fin 0"
  by (cases x) auto

text \<open>The two comparisons with \<open>new Date()\<close> are comparisons of an object that exists with
  an object made for the comparison: they are false, and the check is one of the other six
  fields.\<close>

lemma eventHasEmptyValues_fields:
  assumes "ident (startTime e) < h" "ident (endTime e) < h"
  shows "eventHasEmptyValues h clock e \<longleftrightarrow>
     eventName e = Some [] \<or> description e = Some [] \<or> timezone e = Some []
     \<or> eventLocation e = Some [] \<or> interval e = Some [] \<or> frequency e = Fin 0"
  using assms
  by (auto simp: eventHasEmptyValues_def date_looseEq_def newDate_def str_isEmpty_def
      num_eq_zero)

text \<open>
  C3 as stated fails in both directions. With an empty recurrence kind, which is not in
  the list of the claim, the sample event is classified as incomplete; and with a start
  instant equal to the clock it is not.
\<close>

theorem completeness_counterexample:
  "eventHasEmptyValues 2 sampleClock (sampleSpec\<lparr>interval := Some []\<rparr>)
   \<and> \<not> incompleteAsSpecified (sampleClock 2) (sampleSpec\<lparr>interval := Some []\<rparr>)
   \<and> \<not> eventHasEmptyValues 2 sampleClock
         (sampleSpec\<lparr>startTime := \<lparr>ident = 0, timeValue = Some (sampleClock 2)\<rparr>\<rparr>)
   \<and> incompleteAsSpecified (sampleClock 2)
         (sampleSpec\<lparr>startTime := \<lparr>ident = 0, timeValue = Some (sampleClock 2)\<rparr>\<rparr>)"
  by (simp add: incompleteAsSpecified_def check_defs sample_defs)

text \<open>
  C3, amended. Among the specifications whose start and end instants existed before the
  check and differ from the clock, the completeness check classifies a specification as
  incomplete exactly when the name, the description, the time zone, the location or the
  recurrence kind is the empty string or the recurrence interval is 0; a specification
  that it classifies as incomplete is rejected with reason \<open>IncompleteSpecification\<close>.
\<close>

theorem completeness_fields:
  assumes "ident (startTime e) < h" "ident (endTime e) < h"
    and "timeValue (startTime e) \<noteq> Some (clock 3)" "timeValue (endTime e) \<noteq> Some (clock 2)"
  shows "(eventHasEmptyValues h clock e \<longleftrightarrow>
            eventName e = Some [] \<or> description e = Some [] \<or> timezone e = Some []
            \<or> eventLocation e = Some [] \<or> interval e = Some [] \<or> frequency e = Fin 0)
     \<and> (eventHasEmptyValues h clock e \<longrightarrow>
          scheduleChecks E (eventHasEmptyValues h clock) clock a g e
            = Rejected IncompleteSpecification
          \<and> eventChecks E (eventHasEmptyValues h clock) clock a g e
            = Rejected IncompleteSpecification)"
  using eventHasEmptyValues_fields [OF assms(1,2), of clock]
  by (simp add: scheduleChecks_def eventChecks_def)

theorem completeness_fields_witness:
  "ident (startTime (sampleSpec\<lparr>eventLocation := Some []\<rparr>)) < 2
   \<and> ident (endTime (sampleSpec\<lparr>eventLocation := Some []\<rparr>)) < 2
   \<and> timeValue (startTime (sampleSpec\<lparr>eventLocation := Some []\<rparr>)) \<noteq> Some (sampleClock 3)
   \<and> timeValue (endTime (sampleSpec\<lparr>eventLocation := Some []\<rparr>)) \<noteq> Some (sampleClock 2)
   \<and> eventHasEmptyValues 2 sampleClock (sampleSpec\<lparr>eventLocation := Some []\<rparr>)
   \<and> scheduleChecks sampleEnv (eventHasEmptyValues 2 sampleClock) sampleClock [] (Some ''g'')
        (sampleSpec\<lparr>eventLocation := Some []\<rparr>)
      = Rejected IncompleteSpecification"
proof -
  let ?e = "sampleSpec\<lparr>eventLocation := Some []\<rparr>"
  have h: "ident (startTime ?e) < 2" "ident (endTime ?e) < 2"
    "timeValue (startTime ?e) \<noteq> Some (sampleClock 3)"
    "timeValue (endTime ?e) \<noteq> Some (sampleClock 2)"
    by (simp_all add: sample_defs)
  have loc: "eventLocation ?e = Some []" by simp
  from loc completeness_fields [OF h, of sampleEnv "[]" "Some ''g''"]
  have "eventHasEmptyValues 2 sampleClock ?e"
    "scheduleChecks sampleEnv (eventHasEmptyValues 2 sampleClock) sampleClock [] (Some ''g'') ?e
      = Rejected IncompleteSpecification"
    by blast+
  with h show ?thesis by simp
qed

section \<open>Extraction\<close>

lemma failsToResolve_iff:
  "failsToResolve E text tz \<longleftrightarrow> parseCustomDate E h (Some text) tz = Inr (None, h)"
  by (auto simp: failsToResolve_def parseCustomDate_def split: option.splits)

text \<open>The instant that \<open>parseCustomDate\<close> returns is the one Luxon gives for the text as it
  came in: the function adds the check of the shape and nothing else.\<close>

lemma parseCustomDate_timeValue:
  "parseCustomDate E h (Some text) tz = Inr (Some d, h') \<Longrightarrow>
   ident d = h \<and> h' = Suc h \<and> timeValue d = fromFormat E text tz"
  by (clarsimp simp: parseCustomDate_def split: option.splits)
    (frule regex_match_reassemble, simp)


text \<open>What extraction returns when both date fields are there.\<close>

lemma extract_returns_aux:
  assumes len: "3 \<le> length (js_split line)"
  shows "\<exists>e h'. extractEventdetails E h clock line mode = Inr (e, h')
     \<and> ident (startTime e) < h' \<and> ident (endTime e) < h'
     \<and> (mode \<noteq> ''New Event'' \<and> mode \<noteq> ''New Schedule'' \<longrightarrow> isEmptySpecification clock e)
     \<and> (mode = ''New Event'' \<or> mode = ''New Schedule'' \<longrightarrow>
          eventName e = Some (js_split line ! 0) \<and> timezone e = zoneOf line
          \<and> eventLocation e = elemAt (js_split line) 4
          \<and> description e = elemAt (js_split line) 5
          \<and> (failsToResolve E (js_split line ! 1) (zoneOf line) \<longrightarrow>
               timeValue (startTime e) = Some 0)
          \<and> (failsToResolve E (js_split line ! 2) (zoneOf line) \<longrightarrow>
               timeValue (endTime e) = Some 0))
     \<and> (mode = ''New Schedule'' \<longrightarrow> interval e = elemAt (js_split line) 6
          \<and> frequency e = unaryPlus E (map_option trim (elemAt (js_split line) 7)))"
proof -
  let ?p = "js_split line"
  from len have at: "elemAt ?p 0 = Some (?p ! 0)" "elemAt ?p 1 = Some (?p ! 1)"
    "elemAt ?p 2 = Some (?p ! 2)"
    by (auto simp: elemAt_def)
  obtain d1 h1 where p1: "parseCustomDate E h (Some (?p ! 1)) (zoneOf line) = Inr (d1, h1)"
    and b1: "h \<le> h1" and n1: "failsToResolve E (?p ! 1) (zoneOf line) \<longrightarrow> d1 = None"
    using parseCustomDate_text_cases [of E h "?p ! 1" "zoneOf line"]
    by (auto simp: failsToResolve_iff [of E _ _ h])
  obtain d2 h2
    where p2: "parseCustomDate E (Suc h1) (Some (?p ! 2)) (zoneOf line) = Inr (d2, h2)"
      and b2: "Suc h1 \<le> h2" and n2: "failsToResolve E (?p ! 2) (zoneOf line) \<longrightarrow> d2 = None"
    using parseCustomDate_text_cases [of E "Suc h1" "?p ! 2" "zoneOf line"]
    by (auto simp: failsToResolve_iff [of E _ _ "Suc h1"])
  show ?thesis
    using p1 p2 b1 b2 n1 n2 at
    by (auto simp: extractEventdetails_def Let_def zoneOf_def isEmptySpecification_def
        newDateFrom_def newDate_def)
qed

text \<open>With fewer than three fields a date text is \<open>undefined\<close>, and \<open>parseCustomDate\<close>
  throws on it: the promise is rejected, in every mode.\<close>

lemma extract_throws:
  "length (js_split line) < 3 \<Longrightarrow> extractEventdetails E h clock line mode = Inl TypeError"
  apply (cases "length (js_split line) < 2")
   apply (simp add: extractEventdetails_def Let_def elemAt_def parseCustomDate_def)
  using parseCustomDate_text_cases [of E h "js_split line ! 1" "zoneOf line"]
  apply (auto simp: extractEventdetails_def Let_def elemAt_def zoneOf_def str_isEmpty_def)
   apply (auto simp: parseCustomDate_def)
  done




section \<open>A date that fails to resolve\<close>

text \<open>
  C10 as stated fails. The start date of both lines fails to resolve. The first line has
  an empty name: the specification does not pass the completeness check, and the reason
  is \<open>IncompleteSpecification\<close>. The second line has no end date: extraction throws, and
  no check is made.
\<close>

theorem unresolved_date_counterexample:
  "failsToResolve sampleEnv ''tomorrow'' (Some ''UTC'')
   \<and> createNewDiscordSchedule sampleEnv eventHasEmptyValues 0 sampleClock
       ''; tomorrow; 2999-01-10 09:00; UTC; Y; Z; daily; 1'' [] (Some ''g'')
     = Rejected IncompleteSpecification
   \<and> failsToResolve sampleEnv ''tomorrow'' (Some ''Europe/Amsterdam'')
   \<and> createNewDiscordSchedule sampleEnv eventHasEmptyValues 0 sampleClock
       ''X; tomorrow'' [] (Some ''g'')
     = Uncaught TypeError"
  by code_simp

text \<open>
  C10, amended. For every input line that has both date fields and whose start or end
  date text fails to resolve, extraction stores the epoch in that field, not an empty or
  failure marker. The completeness check decides on the other six fields. When the
  specification passes it, the failure surfaces as a rejection with reason \<open>TimeInPast\<close>
  (the clock being at or after the epoch); when it does not, the reason is
  \<open>IncompleteSpecification\<close>. There is no date-parse failure.
\<close>

theorem unresolved_date_is_epoch:
  assumes "3 \<le> length (js_split line)"
    and "failsToResolve E (js_split line ! 1) (zoneOf line)
         \<or> failsToResolve E (js_split line ! 2) (zoneOf line)"
    and "0 \<le> clock 4" and "0 \<le> clock 5"
  shows "\<exists>e h'. extractEventdetails E h clock line ''New Schedule'' = Inr (e, h')
     \<and> (failsToResolve E (js_split line ! 1) (zoneOf line) \<longrightarrow> timeValue (startTime e) = Some 0)
     \<and> (failsToResolve E (js_split line ! 2) (zoneOf line) \<longrightarrow> timeValue (endTime e) = Some 0)
     \<and> (eventHasEmptyValues h' clock e \<longleftrightarrow>
          eventName e = Some [] \<or> description e = Some [] \<or> timezone e = Some []
          \<or> eventLocation e = Some [] \<or> interval e = Some [] \<or> frequency e = Fin 0)
     \<and> createNewDiscordSchedule E eventHasEmptyValues h clock line a g =
         (if eventHasEmptyValues h' clock e then Rejected IncompleteSpecification
          else Rejected TimeInPast)"
proof -
  from extract_returns_aux [OF assms(1), of E h clock "''New Schedule''"] obtain e h'
    where r: "extractEventdetails E h clock line ''New Schedule'' = Inr (e, h')"
      and i: "ident (startTime e) < h'" "ident (endTime e) < h'"
      and s: "failsToResolve E (js_split line ! 1) (zoneOf line) \<longrightarrow>
                timeValue (startTime e) = Some 0"
      and t: "failsToResolve E (js_split line ! 2) (zoneOf line) \<longrightarrow>
                timeValue (endTime e) = Some 0"
    by auto
  from assms(2) s t have "timeValue (startTime e) = Some 0 \<or> timeValue (endTime e) = Some 0"
    by blast
  with assms(3,4)
  have "checkTimeInPast (clock 4) (startTime e) \<or> checkTimeInPast (clock 5) (endTime e)"
    by (auto simp: checkTimeInPast_def date_lt_def newDate_def)
  then have "createNewDiscordSchedule E eventHasEmptyValues h clock line a g =
      (if eventHasEmptyValues h' clock e then Rejected IncompleteSpecification
       else Rejected TimeInPast)"
    by (simp add: createNewDiscordSchedule_def r scheduleChecks_def)
  with r s t eventHasEmptyValues_fields [OF i, of clock] show ?thesis by blast
qed

text \<open>The line of the counterexample with a name.\<close>

theorem unresolved_date_is_epoch_witness:
  "3 \<le> length (js_split ''X; tomorrow; 2999-01-10 09:00; UTC; Y; Z; daily; 1'')
   \<and> failsToResolve sampleEnv
        (js_split ''X; tomorrow; 2999-01-10 09:00; UTC; Y; Z; daily; 1'' ! 1)
        (zoneOf ''X; tomorrow; 2999-01-10 09:00; UTC; Y; Z; daily; 1'')
   \<and> 0 \<le> sampleClock 4 \<and> 0 \<le> sampleClock 5
   \<and> createNewDiscordSchedule sampleEnv eventHasEmptyValues 0 sampleClock
       ''X; tomorrow; 2999-01-10 09:00; UTC; Y; Z; daily; 1'' [] (Some ''g'')
     = Rejected TimeInPast"
proof -
  let ?l = "''X; tomorrow; 2999-01-10 09:00; UTC; Y; Z; daily; 1''"
  have h: "3 \<le> length (js_split ?l)" "failsToResolve sampleEnv (js_split ?l ! 1) (zoneOf ?l)"
    by code_simp+
  have c: "0 \<le> sampleClock 4" "0 \<le> sampleClock 5" by (simp_all add: sampleClock_def)
  have x: "extractEventdetails sampleEnv 0 sampleClock ?l ''New Schedule''
      = Inr (\<lparr>eventName = Some ''X'', startTime = \<lparr>ident = 0, timeValue = Some 0\<rparr>,
              endTime = \<lparr>ident = 2, timeValue = Some 32472954000000\<rparr>,
              timezone = Some ''UTC'', eventLocation = Some ''Y'', description = Some ''Z'',
              interval = Some ''daily'', frequency = Fin 1\<rparr>, 3)"
    by code_simp
  from unresolved_date_is_epoch [OF h(1) disjI1 [OF h(2)] c, of 0 "[]" "Some ''g''"] x
  have "createNewDiscordSchedule sampleEnv eventHasEmptyValues 0 sampleClock ?l [] (Some ''g'')
      = Rejected TimeInPast"
    by auto
  with h c show ?thesis by simp
qed

end
